theory Spec2Isabelle
  imports Main "HOL-Library.Sublist"
begin

section \<open>Python strings\<close>

text \<open>
  A Python \<open>str\<close> is modelled as a \<open>string\<close>, one \<open>char\<close> per code point; the
  model covers the code points below 256. The exceptions of the source are values of
  the type \<open>error\<close>, and a function that can raise returns \<open>error + 'a\<close>.
\<close>

datatype error = IndexError | KeyError | AttributeError | TypeError | ValueError | StorageFailure

definition bind_err :: "error + 'a \<Rightarrow> ('a \<Rightarrow> error + 'b) \<Rightarrow> error + 'b" where
  "bind_err m f = (case m of Inl e \<Rightarrow> Inl e | Inr x \<Rightarrow> f x)"

text \<open>\<open>str.isspace\<close> on one character: the whitespace code points below 256.\<close>

definition isspace :: "char \<Rightarrow> bool" where
  "isspace c \<longleftrightarrow> c \<in> {CHR 0x09, CHR 0x0A, CHR 0x0B, CHR 0x0C, CHR 0x0D, CHR 0x1C, CHR 0x1D,
                      CHR 0x1E, CHR 0x1F, CHR 0x20, CHR 0x85, CHR 0xA0}"

text \<open>\<open>s.strip()\<close>: leading and trailing whitespace removed.\<close>

definition strip :: "string \<Rightarrow> string" where
  "strip s = rev (dropWhile isspace (rev (dropWhile isspace s)))"

text \<open>
  \<open>s.split(sep)\<close> for a non-empty separator: the pieces between the leftmost,
  non-overlapping occurrences of \<open>sep\<close>; the result is never empty.
\<close>

function split_sep :: "string \<Rightarrow> string \<Rightarrow> string list" where
  "split_sep sep [] = [[]]"
| "split_sep sep (c # cs) =
     (if prefix sep (c # cs) then [] # split_sep sep (drop (length sep - 1) cs)
      else (case split_sep sep cs of [] \<Rightarrow> [[c]] | w # ws \<Rightarrow> (c # w) # ws))"
  by pat_completeness auto
termination
  by (relation "measure (\<lambda>(sep, s). length s)") auto

text \<open>\<open>s.split()\<close> and \<open>s.split(None)\<close>: the maximal runs of non-whitespace.\<close>

function split_ws :: "string \<Rightarrow> string list" where
  "split_ws [] = []"
| "split_ws (c # cs) =
     (if isspace c then split_ws cs
      else takeWhile (\<lambda>x. \<not> isspace x) (c # cs) # split_ws (dropWhile (\<lambda>x. \<not> isspace x) cs))"
  by pat_completeness auto
termination
  by (relation "measure length") (auto simp: le_imp_less_Suc length_dropWhile_le)

text \<open>\<open>s.split(delimiter)\<close> as \<open>__init__\<close> calls it: \<open>None\<close> splits on whitespace, an
  empty separator raises \<open>ValueError\<close>.\<close>

definition py_split :: "string \<Rightarrow> string option \<Rightarrow> error + string list" where
  "py_split s delimiter =
     (case delimiter of
        None \<Rightarrow> Inr (split_ws s)
      | Some sep \<Rightarrow> if sep = [] then Inl ValueError else Inr (split_sep sep s))"

text \<open>\<open>sep.join(xs)\<close>.\<close>

fun join :: "string \<Rightarrow> string list \<Rightarrow> string" where
  "join sep [] = []"
| "join sep [x] = x"
| "join sep (x # y # ys) = x @ sep @ join sep (y # ys)"

text \<open>\<open>c.lower()\<close> on one character below 256: A-Z and the Latin-1 capitals.\<close>

definition lower_char :: "char \<Rightarrow> char" where
  "lower_char c =
     (let n = (of_char c :: nat)
      in if (65 \<le> n \<and> n \<le> 90) \<or> (192 \<le> n \<and> n \<le> 222 \<and> n \<noteq> 215)
         then char_of (n + 32) else c)"

definition lower :: "string \<Rightarrow> string" where
  "lower s = map lower_char s"

text \<open>\<open>needle in hay\<close> on strings: \<open>needle\<close> occurs as a contiguous piece of \<open>hay\<close>.\<close>

fun str_in :: "string \<Rightarrow> string \<Rightarrow> bool" where
  "str_in needle [] = (needle = [])"
| "str_in needle (c # cs) = (prefix needle (c # cs) \<or> str_in needle cs)"

section \<open>Name parsing\<close>

text \<open>The dictionary \<open>{'first_name': .., 'last_name': ..}\<close> of \<open>__parse_player_name\<close>.\<close>

record name_dict =
  first_name :: string
  last_name :: string

text \<open>
  \<open>__parse_player_name\<close>: \<open>name_array[0]\<close> is an \<open>IndexError\<close> on an empty list, which
  is a branch of the model.
\<close>

definition parse_player_name :: "string \<Rightarrow> error + name_dict" where
  "parse_player_name name_string =
     (let name_array = split_sep '','' name_string;
          first = (if length name_array > 1 then strip (name_array ! 1) else [])
      in (case name_array of
            [] \<Rightarrow> Inl IndexError
          | x # _ \<Rightarrow> Inr \<lparr>first_name = first, last_name = strip x\<rparr>))"


section \<open>Data model\<close>

text \<open>
  A Python value that an attribute of a game object holds: \<open>moves\<close> is a string in the
  stored form and a list of strings once \<open>format_game\<close> has split it.
\<close>

datatype pyval = Str string | StrList "string list"

text \<open>A Python \<open>dict\<close> with string keys, in insertion order; \<open>d[k]\<close> raises \<open>KeyError\<close>.\<close>

type_synonym 'v dict = "(string \<times> 'v) list"

definition getitem :: "'v dict \<Rightarrow> string \<Rightarrow> error + 'v" where
  "getitem d k = (case map_of d k of None \<Rightarrow> Inl KeyError | Some v \<Rightarrow> Inr v)"

text \<open>The rows of \<open>models.Player\<close> and \<open>models.Pairing\<close>.\<close>

record player =
  pl_id :: nat
  pl_first_name :: string
  pl_last_name :: string

record pairing =
  game_id :: nat
  player_id :: nat
  color :: string

text \<open>
  A \<open>models.Game\<close> object: its columns, the \<open>players\<close> relationship, and the attributes
  that \<open>format_game\<close> assigns on the object (\<open>None\<close> while an attribute is not set).
\<close>

record game =
  g_id :: nat
  event :: string
  site :: string
  date :: string
  match_round :: string
  result :: string
  white_elo :: string
  black_elo :: string
  moves :: pyval
  eco :: string
  players :: "player list"
  white :: "string option"
  black :: "string option"
  round' :: "string option"
  whiteelo :: "string option"
  blackelo :: "string option"
  annotator :: "string option"
  plycount :: "string option"
  timecontrol :: "string option"
  time :: "string option"
  termination' :: "string option"
  mode :: "string option"
  fen :: "string option"

text \<open>A game as \<open>pgn.loads\<close> returns it.\<close>

record parsed_game =
  pg_event :: string
  pg_site :: string
  pg_date :: string
  pg_round :: string
  pg_result :: string
  pg_whiteelo :: string
  pg_blackelo :: string
  pg_white :: string
  pg_black :: string
  pg_moves :: "string list"
  pg_eco :: string

text \<open>
  The committed content of the database. \<open>db.session.commit()\<close> can raise: the
  environment's schedule \<open>commit_faults\<close> says, commit by commit, whether the next one
  fails (\<open>True\<close>); once the schedule is used up every commit succeeds.
\<close>

record db =
  player_table :: "player list"
  game_table :: "game list"
  pairing_table :: "pairing list"
  commit_faults :: "bool list"

definition commit :: "db \<Rightarrow> db \<Rightarrow> (error + unit) \<times> db" where
  "commit old new =
     (case commit_faults old of
        [] \<Rightarrow> (Inr (), new)
      | f # fs \<Rightarrow> if f then (Inl StorageFailure, old\<lparr>commit_faults := fs\<rparr>)
                  else (Inr (), new\<lparr>commit_faults := fs\<rparr>))"

text \<open>The identifier an autoincrement column gives to the next row.\<close>

definition next_id :: "nat list \<Rightarrow> nat" where
  "next_id ids = Suc (fold max ids 0)"

text \<open>The object of \<open>__init__\<close>.\<close>

record game_parser =
  self_pgn :: "string option"
  self_game_id :: "nat option"
  self_parsed_games :: "parsed_game list option"
  self_verbose :: bool


section \<open>Construction\<close>

text \<open>
  Lines 13 to 16 of \<open>__init__\<close>: the text that becomes \<open>self.pgn\<close>. An absent or empty
  \<open>pgn_string\<close> is falsy.
\<close>

definition init_pgn :: "string option \<Rightarrow> string option \<Rightarrow> error + string option" where
  "init_pgn pgn_string delimiter =
     (case pgn_string of
        None \<Rightarrow> Inr None
      | Some s \<Rightarrow>
          if s = [] then Inr None
          else bind_err (py_split s delimiter) (\<lambda>parts. Inr (Some (join [CHR 0x0A] parts))))"

text \<open>
  \<open>__init__\<close>; \<open>pgn.loads\<close> belongs to a library and is the parameter \<open>loads\<close>. The
  diagnostics printed through \<open>__print\<close> are not modelled.
\<close>

definition GameParser_init ::
  "(string \<Rightarrow> error + parsed_game list) \<Rightarrow> string option \<Rightarrow> nat option \<Rightarrow> bool \<Rightarrow> string option
   \<Rightarrow> error + game_parser" where
  "GameParser_init loads pgn_string gid verbose delimiter =
     bind_err (init_pgn pgn_string delimiter) (\<lambda>p.
     bind_err (case p of
                 None \<Rightarrow> Inr None
               | Some t \<Rightarrow> if t = [] then Inr None
                           else bind_err (loads t) (\<lambda>gs. Inr (Some gs))) (\<lambda>pg.
     Inr \<lparr>self_pgn = p, self_game_id = gid, self_parsed_games = pg, self_verbose = verbose\<rparr>))"

section \<open>Player lookup\<close>

text \<open>The argument \<open>player\<close> of \<open>player_in_db\<close> is a name string or a parsed name.\<close>

datatype player_arg = NameString string | NameDict name_dict

definition player_in_db :: "player list \<Rightarrow> player_arg \<Rightarrow> bool \<Rightarrow> error + nat option" where
  "player_in_db tbl player stringified =
     bind_err (if stringified
               then (case player of NameString s \<Rightarrow> parse_player_name s
                                  | NameDict _ \<Rightarrow> Inl AttributeError)
               else (case player of NameDict d \<Rightarrow> Inr d
                                  | NameString _ \<Rightarrow> Inl TypeError)) (\<lambda>d.
     case filter (\<lambda>p. pl_first_name p = first_name d \<and> pl_last_name p = last_name d) tbl of
       [] \<Rightarrow> Inr None
     | p # _ \<Rightarrow> Inr (Some (pl_id p)))"

section \<open>Color resolution\<close>

text \<open>\<open>models.Pairing.query.filter_by(player_id=.., game_id=..).first()\<close>.\<close>

definition first_pairing :: "pairing list \<Rightarrow> nat \<Rightarrow> nat \<Rightarrow> pairing option" where
  "first_pairing tbl pid gid = find (\<lambda>p. player_id p = pid \<and> game_id p = gid) tbl"

text \<open>
  \<open>__unparse_players_with_color\<close>: \<open>players[0]\<close> and \<open>players[1]\<close> raise \<open>IndexError\<close> on
  a shorter list, \<open>.color\<close> raises \<open>AttributeError\<close> on a missing pairing, and the
  \<open>if\<close>/\<open>elif\<close> without \<open>else\<close> leaves the dictionary empty.
\<close>

definition unparse_players_with_color ::
  "pairing list \<Rightarrow> player list \<Rightarrow> nat \<Rightarrow> error + player dict" where
  "unparse_players_with_color tbl ps gid =
     (case ps of
        p0 # p1 # _ \<Rightarrow>
          (case first_pairing tbl (pl_id p0) gid of
             None \<Rightarrow> Inl AttributeError
           | Some pairing_1 \<Rightarrow>
               if color pairing_1 = ''white'' then Inr [(''white'', p0), (''black'', p1)]
               else (case first_pairing tbl (pl_id p1) gid of
                       None \<Rightarrow> Inl AttributeError
                     | Some pairing_2 \<Rightarrow>
                         if color pairing_2 = ''white'' then Inr [(''white'', p1), (''black'', p0)]
                         else Inr []))
      | _ \<Rightarrow> Inl IndexError)"

section \<open>Formatting\<close>

datatype formatted = Dict "pyval dict" | Pgn string

text \<open>
  \<open>format_game\<close> assigns attributes of the game object it is given, so it returns the
  object together with its result. \<open>Player.full_name\<close> is declared in \<open>models\<close> and
  \<open>pgn.dumps\<close> in a library: both are parameters. \<open>game.moves.split\<close> raises
  \<open>AttributeError\<close> when \<open>moves\<close> is a list.
\<close>

definition format_game ::
  "(player \<Rightarrow> string) \<Rightarrow> (game \<Rightarrow> string) \<Rightarrow> pairing list \<Rightarrow> game \<Rightarrow> string
   \<Rightarrow> (error + formatted) \<times> game" where
  "format_game full_name dumps tbl g return_type =
     (case unparse_players_with_color tbl (players g) (g_id g) of
        Inl e \<Rightarrow> (Inl e, g)
      | Inr players_obj \<Rightarrow>
     (case getitem players_obj ''white'' of
        Inl e \<Rightarrow> (Inl e, g)
      | Inr w \<Rightarrow>
     (case getitem players_obj ''black'' of
        Inl e \<Rightarrow> (Inl e, g\<lparr>white := Some (full_name w)\<rparr>)
      | Inr b \<Rightarrow>
          let g1 = g\<lparr>white := Some (full_name w), black := Some (full_name b)\<rparr>
          in if return_type = ''dict'' \<or> return_type = ''json''
             then (Inr (Dict [(''event'', Str (event g1)),
                              (''site'', Str (site g1)),
                              (''date'', Str (date g1)),
                              (''round'', Str (match_round g1)),
                              (''white_elo'', Str (white_elo g1)),
                              (''black_elo'', Str (black_elo g1)),
                              (''white'', Str (full_name w)),
                              (''black'', Str (full_name b)),
                              (''moves'', moves g1),
                              (''eco'', Str (eco g1))]), g1)
             else (case moves g1 of
                     StrList _ \<Rightarrow> (Inl AttributeError, g1)
                   | Str m \<Rightarrow>
                       let g2 = g1\<lparr>moves := StrList (split_sep '','' m),
                                   round' := Some (match_round g1),
                                   whiteelo := Some (white_elo g1),
                                   blackelo := Some (black_elo g1),
                                   annotator := Some [],
                                   plycount := Some [],
                                   timecontrol := Some [],
                                   time := Some [],
                                   termination' := Some [],
                                   mode := Some [],
                                   fen := Some []\<rparr>
                       in (Inr (Pgn (dumps g2)), g2)))))"

section \<open>Filtering\<close>

text \<open>
  \<open>__game_match\<close>; the second operand of \<open>and\<close> is evaluated only when the first holds,
  so \<open>players['black']\<close> is read only then.
\<close>

definition game_match ::
  "(player \<Rightarrow> string) \<Rightarrow> pairing list \<Rightarrow> game \<Rightarrow> (string \<rightharpoonup> string) \<Rightarrow> error + bool" where
  "game_match full_name tbl g request_args =
     bind_err (case request_args ''name'' of
                 None \<Rightarrow> Inr False
               | Some nm \<Rightarrow>
                   bind_err (unparse_players_with_color tbl (players g) (g_id g)) (\<lambda>players_obj.
                   bind_err (getitem players_obj ''white'') (\<lambda>w.
                   if \<not> str_in nm (lower (full_name w))
                   then bind_err (getitem players_obj ''black'') (\<lambda>b.
                          Inr (\<not> str_in nm (lower (full_name b))))
                   else Inr False))) (\<lambda>name_rejects.
     if name_rejects then Inr False
     else (case request_args ''eco'' of
             None \<Rightarrow> Inr True
           | Some e \<Rightarrow> if lower e \<noteq> lower (eco g) then Inr False else Inr True))"

section \<open>Ingestion\<close>

text \<open>\<open>not x\<close> on the result of \<open>player_in_db\<close>: \<open>None\<close> and \<open>0\<close> are falsy.\<close>

definition not_id :: "nat option \<Rightarrow> bool" where
  "not_id x = (case x of None \<Rightarrow> True | Some i \<Rightarrow> i = 0)"

text \<open>
  \<open>__add_players\<close>: both lookups run before either row is added; the new rows get their
  identifiers at the commit, in the order they were added.
\<close>

definition add_players :: "db \<Rightarrow> string \<Rightarrow> string \<Rightarrow> (error + nat dict) \<times> db" where
  "add_players d white_s black_s =
     (case parse_player_name white_s of Inl e \<Rightarrow> (Inl e, d) | Inr white_parsed \<Rightarrow>
     (case parse_player_name black_s of Inl e \<Rightarrow> (Inl e, d) | Inr black_parsed \<Rightarrow>
     (case player_in_db (player_table d) (NameDict white_parsed) False of
        Inl e \<Rightarrow> (Inl e, d) | Inr white_id \<Rightarrow>
     (case player_in_db (player_table d) (NameDict black_parsed) False of
        Inl e \<Rightarrow> (Inl e, d) | Inr black_id \<Rightarrow>
          let db_white = \<lparr>pl_id = next_id (map pl_id (player_table d)),
                          pl_first_name = first_name white_parsed,
                          pl_last_name = last_name white_parsed\<rparr>;
              added_white = (if not_id white_id then [db_white] else []);
              db_black = \<lparr>pl_id = next_id (map pl_id (player_table d @ added_white)),
                          pl_first_name = first_name black_parsed,
                          pl_last_name = last_name black_parsed\<rparr>;
              added_black = (if not_id black_id then [db_black] else [])
          in (case commit d (d\<lparr>player_table := player_table d @ added_white @ added_black\<rparr>) of
                (Inl e, d') \<Rightarrow> (Inl e, d')
              | (Inr _, d') \<Rightarrow>
                  (Inr [(''white'', if not_id white_id then pl_id db_white else the white_id),
                        (''black'', if not_id black_id then pl_id db_black else the black_id)],
                   d'))))))"

text \<open>\<open>__add_game\<close>.\<close>

definition add_game :: "db \<Rightarrow> parsed_game \<Rightarrow> (error + nat) \<times> db" where
  "add_game d pg =
     (let moves_string = join '','' (pg_moves pg);
          db_game = \<lparr>g_id = next_id (map g_id (game_table d)),
                     event = pg_event pg,
                     site = pg_site pg,
                     date = pg_date pg,
                     match_round = pg_round pg,
                     result = pg_result pg,
                     white_elo = pg_whiteelo pg,
                     black_elo = pg_blackelo pg,
                     moves = Str moves_string,
                     eco = pg_eco pg,
                     players = [],
                     white = None, black = None, round' = None, whiteelo = None,
                     blackelo = None, annotator = None, plycount = None, timecontrol = None,
                     time = None, termination' = None, mode = None, fen = None\<rparr>
      in (case commit d (d\<lparr>game_table := game_table d @ [db_game]\<rparr>) of
            (Inl e, d') \<Rightarrow> (Inl e, d')
          | (Inr _, d') \<Rightarrow> (Inr (g_id db_game), d')))"

text \<open>\<open>__add_pairings\<close>.\<close>

definition add_pairings :: "db \<Rightarrow> nat \<Rightarrow> nat dict \<Rightarrow> (error + unit) \<times> db" where
  "add_pairings d gid player_ids =
     (case getitem player_ids ''black'' of Inl e \<Rightarrow> (Inl e, d) | Inr b \<Rightarrow>
     (case getitem player_ids ''white'' of Inl e \<Rightarrow> (Inl e, d) | Inr w \<Rightarrow>
        let black_pairing = \<lparr>game_id = gid, player_id = b, color = ''black''\<rparr>;
            white_pairing = \<lparr>game_id = gid, player_id = w, color = ''white''\<rparr>
        in commit d (d\<lparr>pairing_table := pairing_table d @ [black_pairing, white_pairing]\<rparr>)))"

text \<open>The body of the loop of \<open>add_games\<close> for one game, and the loop.\<close>

definition add_one_game :: "db \<Rightarrow> parsed_game \<Rightarrow> (error + unit) \<times> db" where
  "add_one_game d pg =
     (case add_players d (pg_white pg) (pg_black pg) of
        (Inl e, d1) \<Rightarrow> (Inl e, d1)
      | (Inr db_player_ids, d1) \<Rightarrow>
     (case add_game d1 pg of
        (Inl e, d2) \<Rightarrow> (Inl e, d2)
      | (Inr db_game_id, d2) \<Rightarrow> add_pairings d2 db_game_id db_player_ids))"

fun add_games_loop :: "db \<Rightarrow> parsed_game list \<Rightarrow> (error + unit) \<times> db" where
  "add_games_loop d [] = (Inr (), d)"
| "add_games_loop d (pg # pgs) =
     (case add_one_game d pg of
        (Inl e, d') \<Rightarrow> (Inl e, d')
      | (Inr _, d') \<Rightarrow> add_games_loop d' pgs)"

definition add_games :: "game_parser \<Rightarrow> db \<Rightarrow> (error + unit) \<times> db" where
  "add_games self d =
     (case self_parsed_games self of
        None \<Rightarrow> (Inr (), d)
      | Some pgs \<Rightarrow> if pgs = [] then (Inr (), d) else add_games_loop d pgs)"


section \<open>Retrieval\<close>

text \<open>
  \<open>get_game\<close>: \<open>models.Game.query.get(id)\<close>, the row with that primary key. The
  \<open>players\<close> relationship is filled in by the object-relational mapper, whose
  declaration is in \<open>models\<close>; the row is returned as stored.
\<close>

definition get_game :: "db \<Rightarrow> nat \<Rightarrow> game option" where
  "get_game d i = find (\<lambda>r. g_id r = i) (game_table d)"

section \<open>Reference definitions\<close>

text \<open>
  Modelled from the spec: \<open>Player.full_name\<close> is declared in \<open>models\<close>, which is not
  among the sources; the specification describes it as the display form "First Last".
  The operations above take the function as a parameter; this instance is used where a
  concrete one is needed.
\<close>

definition full_name :: "player \<Rightarrow> string" where
  "full_name p = pl_first_name p @ '' '' @ pl_last_name p"

text \<open>
  Name parsing as the specification words it: one split, at the first comma; the text
  before it is the last name and all the text after it the first name, both trimmed.
\<close>

definition spec_parse_player_name :: "string \<Rightarrow> name_dict" where
  "spec_parse_player_name s =
     \<lparr>first_name = strip (drop 1 (dropWhile (\<lambda>x. x \<noteq> CHR '','') s)),
      last_name = strip (takeWhile (\<lambda>x. x \<noteq> CHR '','') s)\<rparr>"

text \<open>\<open>s.rstrip()\<close>, the right half of \<open>strip\<close>.\<close>

definition rstrip :: "string \<Rightarrow> string" where
  "rstrip s = rev (dropWhile isspace (rev s))"

text \<open>
  Whitespace normalisation as claim C9 words it: every maximal run of whitespace is
  replaced by a single newline, after leading and trailing whitespace is dropped.
\<close>

function collapse_ws :: "string \<Rightarrow> string" where
  "collapse_ws [] = []"
| "collapse_ws (c # cs) =
     (if isspace c then CHR 0x0A # collapse_ws (dropWhile isspace cs) else c # collapse_ws cs)"
  by pat_completeness auto
termination
  by (relation "measure length") (auto simp: le_imp_less_Suc length_dropWhile_le)

definition spec_normalize_ws :: "string \<Rightarrow> string" where
  "spec_normalize_ws s = collapse_ws (strip s)"

section \<open>Example data\<close>

definition ex_A :: player where
  "ex_A = \<lparr>pl_id = 1, pl_first_name = ''Anatoly'', pl_last_name = ''Karpov''\<rparr>"

definition ex_B :: player where
  "ex_B = \<lparr>pl_id = 2, pl_first_name = ''Garry'', pl_last_name = ''Kasparov''\<rparr>"

text \<open>The pairings of game 1 as \<open>__add_pairings\<close> stores them, and a malformed pair.\<close>

definition ex_pairings :: "pairing list" where
  "ex_pairings = [\<lparr>game_id = 1, player_id = 2, color = ''black''\<rparr>,
                  \<lparr>game_id = 1, player_id = 1, color = ''white''\<rparr>]"

definition ex_black_pairings :: "pairing list" where
  "ex_black_pairings = [\<lparr>game_id = 1, player_id = 2, color = ''black''\<rparr>,
                        \<lparr>game_id = 1, player_id = 1, color = ''black''\<rparr>]"

definition ex_game :: game where
  "ex_game = \<lparr>g_id = 1, event = ''World Championship'', site = ''Moscow'', date = ''1985.09.03'',
              match_round = ''1'', result = ''1-0'', white_elo = ''2720'', black_elo = ''2700'',
              moves = Str ''e4,e5,Nf3'', eco = ''C42'', players = [ex_B, ex_A],
              white = None, black = None, round' = None, whiteelo = None, blackelo = None,
              annotator = None, plycount = None, timecontrol = None, time = None,
              termination' = None, mode = None, fen = None\<rparr>"

text \<open>A stand-in for \<open>pgn.dumps\<close> where a concrete function is needed.\<close>

definition ex_dumps :: "game \<Rightarrow> string" where
  "ex_dumps g = (case moves g of Str m \<Rightarrow> m | StrList ms \<Rightarrow> join '' '' ms)"

definition ex_parsed :: parsed_game where
  "ex_parsed = \<lparr>pg_event = ''World Championship'', pg_site = ''Moscow'', pg_date = ''1985.09.03'',
                pg_round = ''1'', pg_result = ''1-0'', pg_whiteelo = ''2720'',
                pg_blackelo = ''2700'', pg_white = ''Karpov, Anatoly'',
                pg_black = ''Kasparov, Garry'', pg_moves = [''e4'', ''e5'', ''Nf3''],
                pg_eco = ''C42''\<rparr>"

text \<open>A parsed game one of whose move tokens, a comment, contains a comma.\<close>

definition ex_parsed_comma :: parsed_game where
  "ex_parsed_comma = ex_parsed\<lparr>pg_moves := [''e4'', ''{sharp, risky}'', ''e5'']\<rparr>"

definition empty_db :: db where
  "empty_db = \<lparr>player_table = [], game_table = [], pairing_table = [], commit_faults = []\<rparr>"

text \<open>Filter criteria with a name in capitals and in lower case.\<close>

definition ex_args_upper :: "string \<rightharpoonup> string" where
  "ex_args_upper = [''name'' \<mapsto> ''Kasp'']"

definition ex_args_lower :: "string \<rightharpoonup> string" where
  "ex_args_lower = [''name'' \<mapsto> ''kasp'']"

text \<open>A parsed batch of one game whose two players carry the same name.\<close>

definition ex_parser_same :: game_parser where
  "ex_parser_same =
     \<lparr>self_pgn = None, self_game_id = None,
      self_parsed_games = Some [ex_parsed\<lparr>pg_white := ''Smith, John'', pg_black := ''Smith, John''\<rparr>],
      self_verbose = False\<rparr>"

text \<open>A parsed batch of two games that share their white player.\<close>

definition ex_parser_shared :: game_parser where
  "ex_parser_shared =
     \<lparr>self_pgn = None, self_game_id = None,
      self_parsed_games = Some [ex_parsed\<lparr>pg_white := ''Smith, John'', pg_black := ''Doe, Jane''\<rparr>,
                                ex_parsed\<lparr>pg_white := ''Smith, John'', pg_black := ''Smith, Jon''\<rparr>],
      self_verbose = False\<rparr>"










section \<open>Properties of the string functions\<close>

lemma split_sep_absent: "d \<notin> set s \<Longrightarrow> split_sep [d] s = [s]"
  by (induction s) auto

lemma split_sep_first: "d \<notin> set w \<Longrightarrow> split_sep [d] (w @ d # r) = w # split_sep [d] r"
  by (induction w) auto

lemma takeWhile_absent: "d \<notin> set s \<Longrightarrow> takeWhile (\<lambda>x. x \<noteq> d) s = s"
  by (induction s) auto

lemma dropWhile_absent: "d \<notin> set s \<Longrightarrow> dropWhile (\<lambda>x. x \<noteq> d) s = []"
  by (induction s) auto

lemma split_at_first:
  "d \<in> set s \<Longrightarrow>
   \<exists>w r. s = w @ d # r \<and> d \<notin> set w \<and> takeWhile (\<lambda>x. x \<noteq> d) s = w
          \<and> dropWhile (\<lambda>x. x \<noteq> d) s = d # r"
proof (induction s)
  case Nil
  then show ?case by simp
next
  case (Cons c cs)
  show ?case
  proof (cases "c = d")
    case True
    then have "c # cs = [] @ d # cs \<and> d \<notin> set [] \<and> takeWhile (\<lambda>x. x \<noteq> d) (c # cs) = []
      \<and> dropWhile (\<lambda>x. x \<noteq> d) (c # cs) = d # cs" by simp
    then show ?thesis by blast
  next
    case False
    with Cons.prems have "d \<in> set cs" by simp
    from Cons.IH [OF this] obtain w r where
      "cs = w @ d # r" "d \<notin> set w" "takeWhile (\<lambda>x. x \<noteq> d) cs = w"
      "dropWhile (\<lambda>x. x \<noteq> d) cs = d # r"
      by blast
    with False have "c # cs = (c # w) @ d # r \<and> d \<notin> set (c # w)
      \<and> takeWhile (\<lambda>x. x \<noteq> d) (c # cs) = c # w \<and> dropWhile (\<lambda>x. x \<noteq> d) (c # cs) = d # r"
      by simp
    then show ?thesis by blast
  qed
qed

lemma split_sep_hd: "\<exists>ws. split_sep [d] s = takeWhile (\<lambda>x. x \<noteq> d) s # ws"
proof (cases "d \<in> set s")
  case False
  then show ?thesis by (simp add: split_sep_absent takeWhile_absent)
next
  case True
  from split_at_first [OF True] obtain w r where
    s: "s = w @ d # r" and w: "d \<notin> set w" and tw: "takeWhile (\<lambda>x. x \<noteq> d) s = w"
    by blast
  have "split_sep [d] s = w # split_sep [d] r"
    unfolding s using w by (rule split_sep_first)
  with tw show ?thesis by blast
qed

lemma strip_Nil: "strip [] = []"
  by (simp add: strip_def)

section \<open>Name parsing: the segments around the first comma\<close>

text \<open>
  Claim C4 as stated fails: \<open>split(',')\<close> cuts at every comma and the code reads the
  second piece only, so the text after a second comma is dropped, where the claim keeps
  everything after the first comma as the first name.
\<close>

theorem parse_player_name_first_comma_counterexample:
  "parse_player_name ''Smith, John, Jr'' = Inr \<lparr>first_name = ''John'', last_name = ''Smith''\<rparr>
   \<and> spec_parse_player_name ''Smith, John, Jr'' = \<lparr>first_name = ''John, Jr'', last_name = ''Smith''\<rparr>
   \<and> parse_player_name ''Smith, John, Jr'' \<noteq> Inr (spec_parse_player_name ''Smith, John, Jr'')"
  by code_simp

text \<open>
  Claim C4, amended: for every input string, name parsing never fails; the last name is
  the trimmed text before the first comma, and the first name is the trimmed text
  between the first comma and the second one (or the end of the string when there is no
  second comma), the empty string when the input has no comma.
\<close>

theorem parse_player_name_segments:
  "parse_player_name s =
     Inr \<lparr>first_name = strip (takeWhile (\<lambda>x. x \<noteq> CHR '','')
                                 (drop 1 (dropWhile (\<lambda>x. x \<noteq> CHR '','') s))),
          last_name = strip (takeWhile (\<lambda>x. x \<noteq> CHR '','') s)\<rparr>"
proof (cases "CHR '','' \<in> set s")
  case False
  then have "split_sep '','' s = [s]" "takeWhile (\<lambda>x. x \<noteq> CHR '','') s = s"
    "dropWhile (\<lambda>x. x \<noteq> CHR '','') s = []"
    by (simp_all only: split_sep_absent takeWhile_absent dropWhile_absent not_False_eq_True)
  then show ?thesis
    by (simp only: parse_player_name_def Let_def list.case list.size strip_Nil drop.simps
        takeWhile.simps) simp
next
  case True
  from split_at_first [OF True] obtain w r where
    s: "s = w @ CHR '','' # r" and w: "CHR '','' \<notin> set w"
    and tw: "takeWhile (\<lambda>x. x \<noteq> CHR '','') s = w"
    and dw: "dropWhile (\<lambda>x. x \<noteq> CHR '','') s = CHR '','' # r"
    by blast
  obtain ws where r: "split_sep '','' r = takeWhile (\<lambda>x. x \<noteq> CHR '','') r # ws"
    using split_sep_hd by blast
  have "split_sep '','' s = w # split_sep '','' r"
    unfolding s using w by (rule split_sep_first)
  with r have sp: "split_sep '','' s = w # takeWhile (\<lambda>x. x \<noteq> CHR '','') r # ws"
    by simp
  show ?thesis
    unfolding parse_player_name_def sp tw dw by simp
qed

theorem parse_player_name_segments_witness:
  "parse_player_name ''  Smith , John Q '' = Inr \<lparr>first_name = ''John Q'', last_name = ''Smith''\<rparr>
   \<and> parse_player_name ''Smith'' = Inr \<lparr>first_name = [], last_name = ''Smith''\<rparr>"
proof -
  have a: "strip (takeWhile (\<lambda>x. x \<noteq> CHR '','')
             (drop 1 (dropWhile (\<lambda>x. x \<noteq> CHR '','') ''  Smith , John Q ''))) = ''John Q''"
    by code_simp
  have b: "strip (takeWhile (\<lambda>x. x \<noteq> CHR '','') ''  Smith , John Q '') = ''Smith''"
    by code_simp
  have c: "strip (takeWhile (\<lambda>x. x \<noteq> CHR '','')
             (drop 1 (dropWhile (\<lambda>x. x \<noteq> CHR '','') ''Smith''))) = []"
    by code_simp
  have d: "strip (takeWhile (\<lambda>x. x \<noteq> CHR '','') ''Smith'') = ''Smith''"
    by code_simp
  show ?thesis
    using parse_player_name_segments [of "''  Smith , John Q ''"]
      parse_player_name_segments [of "''Smith''"]
    unfolding a b c d by simp
qed

section \<open>Color resolution\<close>



text \<open>
  Claim C2 asks for an explicit failure when neither pairing is white. On two black
  pairings the code raises nothing and returns the empty dictionary.
\<close>

theorem unparse_players_with_color_both_black:
  "unparse_players_with_color ex_black_pairings [ex_A, ex_B] 1 = Inr []"
  by (simp add: unparse_players_with_color_def first_pairing_def ex_black_pairings_def
      ex_A_def ex_B_def)

section \<open>Formatting\<close>

lemma ex_game_resolved:
  "unparse_players_with_color ex_pairings (players ex_game) (g_id ex_game)
     = Inr [(''white'', ex_A), (''black'', ex_B)]"
  by (simp add: unparse_players_with_color_def first_pairing_def ex_pairings_def ex_game_def
      ex_A_def ex_B_def)

lemma getitem_white: "getitem [(''white'', a), (''black'', b)] ''white'' = Inr a"
  by (simp add: getitem_def)

lemma getitem_black: "getitem [(''white'', a), (''black'', b)] ''black'' = Inr b"
  by (simp add: getitem_def)

lemma format_game_dict_eq:
  assumes "unparse_players_with_color tbl (players g) (g_id g) = Inr po"
    and "getitem po ''white'' = Inr w" and "getitem po ''black'' = Inr b"
    and "rt = ''dict'' \<or> rt = ''json''"
  shows "format_game fn dumps tbl g rt =
    (Inr (Dict [(''event'', Str (event g)), (''site'', Str (site g)), (''date'', Str (date g)),
                (''round'', Str (match_round g)), (''white_elo'', Str (white_elo g)),
                (''black_elo'', Str (black_elo g)), (''white'', Str (fn w)),
                (''black'', Str (fn b)), (''moves'', moves g), (''eco'', Str (eco g))]),
     g\<lparr>white := Some (fn w), black := Some (fn b)\<rparr>)"
  using assms by (auto simp add: format_game_def Let_def)

lemma format_game_pgn_eq:
  assumes "unparse_players_with_color tbl (players g) (g_id g) = Inr po"
    and "getitem po ''white'' = Inr w" and "getitem po ''black'' = Inr b"
    and "rt \<noteq> ''dict''" and "rt \<noteq> ''json''" and "moves g = Str m"
    and "g' = g\<lparr>white := Some (fn w), black := Some (fn b),
                 moves := StrList (split_sep '','' m), round' := Some (match_round g),
                 whiteelo := Some (white_elo g), blackelo := Some (black_elo g),
                 annotator := Some [], plycount := Some [], timecontrol := Some [],
                 time := Some [], termination' := Some [], mode := Some [], fen := Some []\<rparr>"
  shows "format_game fn dumps tbl g rt = (Inr (Pgn (dumps g')), g')"
  using assms by (simp add: format_game_def Let_def)

text \<open>
  Claim C1 as stated fails on the value under \<open>moves\<close>: the dictionary branch copies
  \<open>game.moves\<close> as stored, the comma-delimited string, and only the other branch splits it.
\<close>

theorem format_game_dict_moves_counterexample:
  "fst (format_game full_name ex_dumps ex_pairings ex_game ''dict'') =
     Inr (Dict [(''event'', Str ''World Championship''), (''site'', Str ''Moscow''),
                (''date'', Str ''1985.09.03''), (''round'', Str ''1''),
                (''white_elo'', Str ''2720''), (''black_elo'', Str ''2700''),
                (''white'', Str ''Anatoly Karpov''), (''black'', Str ''Garry Kasparov''),
                (''moves'', Str ''e4,e5,Nf3''), (''eco'', Str ''C42'')])
   \<and> Str ''e4,e5,Nf3'' \<noteq> StrList [''e4'', ''e5'', ''Nf3'']"
  by (simp add: format_game_dict_eq [OF ex_game_resolved getitem_white getitem_black])
     (simp add: ex_game_def full_name_def ex_A_def ex_B_def)

text \<open>
  Claim C1, amended: for every game whose colored players are resolved, \<open>format_game\<close>
  with return type "dict" or "json" returns a flat mapping with exactly the keys event,
  site, date, round, white_elo, black_elo, white, black, moves, eco, in which white and
  black are the players' full display names and the value under moves is the game's
  stored moves value, unchanged: the comma-delimited storage string.
\<close>

theorem format_game_dict:
  assumes "unparse_players_with_color tbl (players g) (g_id g) = Inr po"
    and "getitem po ''white'' = Inr w" and "getitem po ''black'' = Inr b"
    and "rt = ''dict'' \<or> rt = ''json''"
  shows "\<exists>d. fst (format_game fn dumps tbl g rt) = Inr (Dict d)
     \<and> map fst d = [''event'', ''site'', ''date'', ''round'', ''white_elo'', ''black_elo'',
                     ''white'', ''black'', ''moves'', ''eco'']
     \<and> map_of d ''event'' = Some (Str (event g))
     \<and> map_of d ''site'' = Some (Str (site g))
     \<and> map_of d ''date'' = Some (Str (date g))
     \<and> map_of d ''round'' = Some (Str (match_round g))
     \<and> map_of d ''white_elo'' = Some (Str (white_elo g))
     \<and> map_of d ''black_elo'' = Some (Str (black_elo g))
     \<and> map_of d ''white'' = Some (Str (fn w))
     \<and> map_of d ''black'' = Some (Str (fn b))
     \<and> map_of d ''moves'' = Some (moves g)
     \<and> map_of d ''eco'' = Some (Str (eco g))"
  by (simp add: format_game_dict_eq [OF assms])

theorem format_game_dict_witness:
  "\<exists>d. fst (format_game full_name ex_dumps ex_pairings ex_game ''json'') = Inr (Dict d)
     \<and> map fst d = [''event'', ''site'', ''date'', ''round'', ''white_elo'', ''black_elo'',
                     ''white'', ''black'', ''moves'', ''eco'']
     \<and> map_of d ''event'' = Some (Str (event ex_game))
     \<and> map_of d ''site'' = Some (Str (site ex_game))
     \<and> map_of d ''date'' = Some (Str (date ex_game))
     \<and> map_of d ''round'' = Some (Str (match_round ex_game))
     \<and> map_of d ''white_elo'' = Some (Str (white_elo ex_game))
     \<and> map_of d ''black_elo'' = Some (Str (black_elo ex_game))
     \<and> map_of d ''white'' = Some (Str (full_name ex_A))
     \<and> map_of d ''black'' = Some (Str (full_name ex_B))
     \<and> map_of d ''moves'' = Some (moves ex_game)
     \<and> map_of d ''eco'' = Some (Str (eco ex_game))"
proof -
  have rt: "''json'' = ''dict'' \<or> ''json'' = ''json''" by simp
  show ?thesis
    by (rule format_game_dict [OF ex_game_resolved getitem_white getitem_black rt])
qed

text \<open>
  Claim C10: \<open>format_game\<close> with return type "pgn" changes the game object it is given:
  \<open>moves\<close> becomes the list of the split moves, and \<open>white\<close>, \<open>black\<close>, \<open>round\<close>,
  \<open>whiteelo\<close>, \<open>blackelo\<close> and the seven placeholder attributes are assigned; afterwards
  \<open>moves\<close> is no longer a string.
\<close>

theorem format_game_pgn_mutates:
  assumes "unparse_players_with_color tbl (players g) (g_id g) = Inr po"
    and "getitem po ''white'' = Inr w" and "getitem po ''black'' = Inr b"
    and "moves g = Str m"
  shows "snd (format_game fn dumps tbl g ''pgn'') =
           g\<lparr>white := Some (fn w), black := Some (fn b),
             moves := StrList (split_sep '','' m), round' := Some (match_round g),
             whiteelo := Some (white_elo g), blackelo := Some (black_elo g),
             annotator := Some [], plycount := Some [], timecontrol := Some [],
             time := Some [], termination' := Some [], mode := Some [], fen := Some []\<rparr>
       \<and> fst (format_game fn dumps tbl g ''pgn'')
           = Inr (Pgn (dumps (snd (format_game fn dumps tbl g ''pgn''))))
       \<and> moves (snd (format_game fn dumps tbl g ''pgn'')) = StrList (split_sep '','' m)
       \<and> (\<forall>s. moves (snd (format_game fn dumps tbl g ''pgn'')) \<noteq> Str s)
       \<and> snd (format_game fn dumps tbl g ''pgn'') \<noteq> g"
proof -
  define g' where "g' = g\<lparr>white := Some (fn w), black := Some (fn b),
             moves := StrList (split_sep '','' m), round' := Some (match_round g),
             whiteelo := Some (white_elo g), blackelo := Some (black_elo g),
             annotator := Some [], plycount := Some [], timecontrol := Some [],
             time := Some [], termination' := Some [], mode := Some [], fen := Some []\<rparr>"
  have rt: "''pgn'' \<noteq> ''dict''" "''pgn'' \<noteq> ''json''" by simp_all
  have eq: "format_game fn dumps tbl g ''pgn'' = (Inr (Pgn (dumps g')), g')"
    by (rule format_game_pgn_eq [OF assms(1-3) rt assms(4) g'_def])
  have mv: "moves g' = StrList (split_sep '','' m)"
    by (simp add: g'_def)
  have ne: "g' \<noteq> g"
  proof
    assume "g' = g"
    with mv assms(4) show False by simp
  qed
  have "snd (format_game fn dumps tbl g ''pgn'') = g'"
    and "fst (format_game fn dumps tbl g ''pgn'') = Inr (Pgn (dumps g'))"
    by (simp_all add: eq)
  with mv ne show ?thesis
    unfolding g'_def [symmetric] by simp
qed

theorem format_game_pgn_mutates_witness:
  "moves ex_game = Str ''e4,e5,Nf3''
   \<and> moves (snd (format_game full_name ex_dumps ex_pairings ex_game ''pgn''))
       = StrList [''e4'', ''e5'', ''Nf3'']
   \<and> snd (format_game full_name ex_dumps ex_pairings ex_game ''pgn'') \<noteq> ex_game"
proof -
  have m: "moves ex_game = Str ''e4,e5,Nf3''" by (simp add: ex_game_def)
  have sp: "split_sep '','' ''e4,e5,Nf3'' = [''e4'', ''e5'', ''Nf3'']" by code_simp
  from format_game_pgn_mutates [OF ex_game_resolved getitem_white getitem_black m,
      of full_name ex_dumps]
  have "moves (snd (format_game full_name ex_dumps ex_pairings ex_game ''pgn''))
          = StrList (split_sep '','' ''e4,e5,Nf3'')"
    and "snd (format_game full_name ex_dumps ex_pairings ex_game ''pgn'') \<noteq> ex_game"
    by blast+
  with m sp show ?thesis by simp
qed


section \<open>Move list: stored string and split\<close>

lemma split_join:
  "xs \<noteq> [] \<Longrightarrow> \<forall>x\<in>set xs. d \<notin> set x \<Longrightarrow> split_sep [d] (join [d] xs) = xs"
proof (induction "[d]" xs rule: join.induct)
  case 1
  then show ?case by simp
next
  case (2 x)
  then show ?case by (simp add: split_sep_absent)
next
  case (3 x y ys)
  then show ?case using split_sep_first [of d x "join [d] (y # ys)"] by simp
qed

lemma next_id_fresh: "x \<in> set ids \<Longrightarrow> x < next_id ids"
proof -
  assume "x \<in> set ids"
  then have "x \<le> Max (set (0 # ids))" by (intro Max_ge) simp_all
  also have "Max (set (0 # ids)) = fold max ids 0" by (rule Max.set_eq_fold)
  finally show ?thesis by (simp add: next_id_def)
qed

lemma find_new_row:
  "\<forall>x\<in>set xs. \<not> P x \<Longrightarrow> P r \<Longrightarrow> find P (xs @ [r]) = Some r"
  by (induction xs) auto

lemma commit_ok:
  "commit d new = (Inr u, d') \<Longrightarrow>
     player_table d' = player_table new \<and> game_table d' = game_table new
     \<and> pairing_table d' = pairing_table new"
  by (auto simp: commit_def split: list.splits if_splits)

lemma commit_failed:
  "commit d new = (Inl e, d') \<Longrightarrow>
     e = StorageFailure \<and> player_table d' = player_table d \<and> game_table d' = game_table d
     \<and> pairing_table d' = pairing_table d"
  by (auto simp: commit_def split: list.splits if_splits)

lemma add_game_stored:
  assumes "add_game d pg = (Inr gid, d')"
  shows "\<exists>row. get_game d' gid = Some row \<and> g_id row = gid
           \<and> moves row = Str (join '','' (pg_moves pg)) \<and> players row = []
           \<and> game_table d' = game_table d @ [row]"
proof -
  define row where "row = \<lparr>g_id = next_id (map g_id (game_table d)),
                     event = pg_event pg, site = pg_site pg, date = pg_date pg,
                     match_round = pg_round pg, result = pg_result pg,
                     white_elo = pg_whiteelo pg, black_elo = pg_blackelo pg,
                     moves = Str (join '','' (pg_moves pg)), eco = pg_eco pg, players = [],
                     white = None, black = None, round' = None, whiteelo = None,
                     blackelo = None, annotator = None, plycount = None, timecontrol = None,
                     time = None, termination' = None, mode = None, fen = None\<rparr>"
  have ag: "add_game d pg =
     (case commit d (d\<lparr>game_table := game_table d @ [row]\<rparr>) of
            (Inl e, d') \<Rightarrow> (Inl e, d')
          | (Inr _, d') \<Rightarrow> (Inr (g_id row), d'))"
    by (simp only: add_game_def Let_def row_def)
  obtain r d1 where c: "commit d (d\<lparr>game_table := game_table d @ [row]\<rparr>) = (r, d1)"
    by (cases "commit d (d\<lparr>game_table := game_table d @ [row]\<rparr>)")
  from assms ag c obtain u where r: "r = Inr u" and gid: "gid = g_id row" and d': "d' = d1"
    by (cases r) auto
  from commit_ok [of d _ u d1] c r have tbl: "game_table d1 = game_table d @ [row]"
    by simp
  have fresh: "\<forall>x\<in>set (game_table d). \<not> g_id x = g_id row"
  proof
    fix x assume "x \<in> set (game_table d)"
    then have "g_id x \<in> set (map g_id (game_table d))" by simp
    from next_id_fresh [OF this] show "\<not> g_id x = g_id row" by (simp add: row_def)
  qed
  have "get_game d1 (g_id row) = Some row"
    unfolding get_game_def tbl by (rule find_new_row [OF fresh]) simp
  moreover have "moves row = Str (join '','' (pg_moves pg))" "players row = []"
    by (simp_all add: row_def)
  ultimately show ?thesis using gid d' tbl by blast
qed


text \<open>
  Claim C3 as stated fails: a move token that contains a comma is neither rejected nor
  escaped; it is stored, and formatting gives back a different, longer move list.
\<close>

theorem moves_round_trip_comma_counterexample:
  "pg_moves ex_parsed_comma = [''e4'', ''{sharp, risky}'', ''e5'']
   \<and> fst (add_game empty_db ex_parsed_comma) = Inr 1
   \<and> moves (the (get_game (snd (add_game empty_db ex_parsed_comma)) 1)) = Str ''e4,{sharp, risky},e5''
   \<and> moves (snd (format_game full_name ex_dumps ex_pairings
        ((the (get_game (snd (add_game empty_db ex_parsed_comma)) 1))\<lparr>players := [ex_B, ex_A]\<rparr>)
        ''pgn'')) = StrList [''e4'', ''{sharp'', '' risky}'', ''e5'']"
  by code_simp

text \<open>
  Claim C3, amended: for every non-empty move list none of whose tokens contains a
  comma, the string that ingestion stores is the comma-joined list, and formatting the
  stored game as pgn splits it back into exactly the original move list.
\<close>

theorem moves_round_trip:
  assumes "pg_moves pg \<noteq> []" and "\<forall>m\<in>set (pg_moves pg). CHR '','' \<notin> set m"
    and "add_game d pg = (Inr gid, d')"
    and "unparse_players_with_color tbl ps gid = Inr po"
    and "getitem po ''white'' = Inr w" and "getitem po ''black'' = Inr b"
  shows "\<exists>row. get_game d' gid = Some row
           \<and> moves row = Str (join '','' (pg_moves pg))
           \<and> moves (snd (format_game fn dumps tbl (row\<lparr>players := ps\<rparr>) ''pgn''))
               = StrList (pg_moves pg)"
proof -
  from add_game_stored [OF assms(3)] obtain row where
    got: "get_game d' gid = Some row" and gid: "g_id row = gid"
    and mv: "moves row = Str (join '','' (pg_moves pg))"
    by blast
  define g where "g = row\<lparr>players := ps\<rparr>"
  have res: "unparse_players_with_color tbl (players g) (g_id g) = Inr po"
    using assms(4) gid by (simp add: g_def)
  have gm: "moves g = Str (join '','' (pg_moves pg))"
    using mv by (simp add: g_def)
  have rt: "''pgn'' \<noteq> ''dict''" "''pgn'' \<noteq> ''json''" by simp_all
  have "moves (snd (format_game fn dumps tbl g ''pgn''))
          = StrList (split_sep '','' (join '','' (pg_moves pg)))"
    unfolding format_game_pgn_eq [OF res assms(5) assms(6) rt gm refl] by simp
  also have "split_sep '','' (join '','' (pg_moves pg)) = pg_moves pg"
    using assms(1) assms(2) by (rule split_join)
  finally have "moves (snd (format_game fn dumps tbl (row\<lparr>players := ps\<rparr>) ''pgn''))
               = StrList (pg_moves pg)"
    by (simp only: g_def)
  with got mv show ?thesis by blast
qed

theorem moves_round_trip_witness:
  "\<exists>row. get_game (snd (add_game empty_db ex_parsed)) 1 = Some row
           \<and> moves row = Str (join '','' (pg_moves ex_parsed))
           \<and> moves (snd (format_game full_name ex_dumps ex_pairings (row\<lparr>players := [ex_B, ex_A]\<rparr>) ''pgn''))
               = StrList (pg_moves ex_parsed)"
proof -
  have ne: "pg_moves ex_parsed \<noteq> []" by (simp add: ex_parsed_def)
  have nc: "\<forall>m\<in>set (pg_moves ex_parsed). CHR '','' \<notin> set m" by (simp add: ex_parsed_def)
  have "fst (add_game empty_db ex_parsed) = Inr 1" by code_simp
  then have ag: "add_game empty_db ex_parsed = (Inr 1, snd (add_game empty_db ex_parsed))"
    by (metis prod.collapse)
  have res: "unparse_players_with_color ex_pairings [ex_B, ex_A] 1
               = Inr [(''white'', ex_A), (''black'', ex_B)]"
    by (simp add: unparse_players_with_color_def first_pairing_def ex_pairings_def
        ex_A_def ex_B_def)
  show ?thesis
    by (rule moves_round_trip [OF ne nc ag res getitem_white getitem_black])
qed


section \<open>Whitespace normalisation at construction\<close>

lemma strip_rstrip: "strip s = rstrip (dropWhile isspace s)"
  by (simp add: strip_def rstrip_def)

lemma rstrip_Nil: "rstrip [] = []"
  by (simp add: rstrip_def)

lemma rstrip_all_space: "\<forall>y\<in>set t. isspace y \<Longrightarrow> rstrip t = []"
  by (simp add: rstrip_def)

lemma rstrip_Cons:
  "rstrip (x # t) = (if \<forall>y\<in>set (x # t). isspace y then [] else x # rstrip t)"
proof (cases "\<forall>y\<in>set t. isspace y")
  case True
  then have "dropWhile isspace (rev t @ [x]) = dropWhile isspace [x]"
    by (intro dropWhile_append2) simp
  with True show ?thesis by (simp add: rstrip_def)
next
  case False
  then obtain y where "y \<in> set (rev t)" "\<not> isspace y" by auto
  then have "dropWhile isspace (rev t @ [x]) = dropWhile isspace (rev t) @ [x]"
    by (rule dropWhile_append1)
  with False show ?thesis by (simp add: rstrip_def)
qed

lemma rstrip_append: "\<forall>x\<in>set w. \<not> isspace x \<Longrightarrow> rstrip (w @ r) = w @ rstrip r"
  by (induction w) (auto simp: rstrip_Cons)

lemma lstrip_rstrip: "dropWhile isspace (rstrip t) = rstrip (dropWhile isspace t)"
proof (induction t)
  case Nil
  show ?case by (simp add: rstrip_Nil)
next
  case (Cons x t)
  show ?case
  proof (cases "\<forall>y\<in>set (x # t). isspace y")
    case True
    then have a: "dropWhile isspace (x # t) = []" by simp
    from True have b: "rstrip (x # t) = []" by (rule rstrip_all_space)
    show ?thesis unfolding a b by (simp add: rstrip_Nil)
  next
    case False
    then have r: "rstrip (x # t) = x # rstrip t" by (simp add: rstrip_Cons)
    show ?thesis
    proof (cases "isspace x")
      case True
      with r Cons.IH show ?thesis by simp
    next
      case False
      with r show ?thesis by simp
    qed
  qed
qed

lemma dropWhile_first: "dropWhile Q cs = x # r \<Longrightarrow> \<not> Q x"
  by (induction cs) (auto split: if_splits)

lemma collapse_ws_append:
  "\<forall>x\<in>set w. \<not> isspace x \<Longrightarrow> collapse_ws (w @ t) = w @ collapse_ws t"
  by (induction w) auto

lemma split_ws_all_space: "\<forall>y\<in>set t. isspace y \<Longrightarrow> split_ws t = []"
  by (induction t) auto

lemma split_ws_nonempty: "\<exists>y\<in>set t. \<not> isspace y \<Longrightarrow> split_ws t \<noteq> []"
  by (induction t) auto

lemma join_Cons: "join sep (x # xs) = (if xs = [] then x else x @ sep @ join sep xs)"
  by (cases xs) simp_all

lemma join_split_ws: "join [CHR 0x0A] (split_ws s) = collapse_ws (strip s)"
proof (induction s rule: split_ws.induct)
  case 1
  show ?case by (simp add: strip_Nil)
next
  case (2 c cs)
  show ?case
  proof (cases "isspace c")
    case True
    with 2 show ?thesis by (simp add: strip_rstrip)
  next
    case False
    define w where "w = c # takeWhile (\<lambda>x. \<not> isspace x) cs"
    define r where "r = dropWhile (\<lambda>x. \<not> isspace x) cs"
    have s: "c # cs = w @ r" by (simp add: w_def r_def)
    have w: "\<forall>x\<in>set w. \<not> isspace x"
      using False by (auto simp: w_def dest: set_takeWhileD)
    have sp: "split_ws (c # cs) = w # split_ws r"
      using False by (simp add: w_def r_def)
    have IH: "join [CHR 0x0A] (split_ws r) = collapse_ws (strip r)"
      using 2(2) False by (simp add: r_def)
    have "dropWhile isspace (w @ r) = w @ r"
      using False by (simp add: w_def)
    then have st: "strip (c # cs) = w @ rstrip r"
      unfolding s strip_rstrip using w by (simp add: rstrip_append)
    have rhs: "collapse_ws (strip (c # cs)) = w @ collapse_ws (rstrip r)"
      unfolding st using w by (rule collapse_ws_append)
    show ?thesis
    proof (cases "\<forall>y\<in>set r. isspace y")
      case True
      then have "split_ws r = []" "rstrip r = []"
        by (simp_all add: split_ws_all_space rstrip_all_space)
      then show ?thesis unfolding rhs sp by simp
    next
      case nsp: False
      then have ne: "split_ws r \<noteq> []" by (intro split_ws_nonempty) simp
      from nsp have "r \<noteq> []" by auto
      then obtain x r' where r: "r = x # r'" by (cases r) auto
      have x: "isspace x"
        using dropWhile_first [of "\<lambda>x. \<not> isspace x" cs x r'] r by (simp add: r_def)
      from nsp have rs: "rstrip r = x # rstrip r'"
        unfolding r by (simp add: rstrip_Cons)
      have "strip r = rstrip (dropWhile isspace r')"
        unfolding r strip_rstrip using x by simp
      then have "collapse_ws (rstrip r) = CHR 0x0A # collapse_ws (strip r)"
        unfolding rs using x by (simp add: lstrip_rstrip)
      with IH have "collapse_ws (rstrip r) = CHR 0x0A # join [CHR 0x0A] (split_ws r)"
        by simp
      then show ?thesis unfolding rhs sp using ne by (simp add: join_Cons)
    qed
  qed
qed


text \<open>
  Claim C9: when a non-empty \<open>pgn_string\<close> is given and \<open>delimiter\<close> is left at \<open>None\<close>,
  the text kept in \<open>self.pgn\<close> and handed to \<open>pgn.loads\<close> is the input with leading and
  trailing whitespace dropped and every maximal run of whitespace replaced by one
  newline; the parser is not called when that text is empty.
\<close>

theorem init_normalizes_whitespace:
  assumes "pgn_string \<noteq> []"
  shows "init_pgn (Some pgn_string) None = Inr (Some (spec_normalize_ws pgn_string))
       \<and> GameParser_init loads (Some pgn_string) gid verbose None =
           (if spec_normalize_ws pgn_string = []
            then Inr \<lparr>self_pgn = Some [], self_game_id = gid, self_parsed_games = None,
                      self_verbose = verbose\<rparr>
            else bind_err (loads (spec_normalize_ws pgn_string)) (\<lambda>gs.
                   Inr \<lparr>self_pgn = Some (spec_normalize_ws pgn_string), self_game_id = gid,
                        self_parsed_games = Some gs, self_verbose = verbose\<rparr>))"
proof -
  have p: "init_pgn (Some pgn_string) None = Inr (Some (spec_normalize_ws pgn_string))"
    using assms
    by (simp add: init_pgn_def py_split_def bind_err_def spec_normalize_ws_def join_split_ws)
  show ?thesis
  proof (cases "spec_normalize_ws pgn_string = []")
    case True
    then show ?thesis
      by (simp add: p GameParser_init_def bind_err_def)
  next
    case False
    then show ?thesis
      by (cases "loads (spec_normalize_ws pgn_string)")
         (simp_all add: p GameParser_init_def bind_err_def)
  qed
qed

theorem init_normalizes_whitespace_witness:
  "init_pgn (Some '' e4  e5\<newline>\<newline>Nf3 '') None = Inr (Some ''e4\<newline>e5\<newline>Nf3'')
   \<and> ''e4\<newline>e5\<newline>Nf3'' \<noteq> '' e4  e5\<newline>\<newline>Nf3 ''"
proof -
  have ne: "'' e4  e5\<newline>\<newline>Nf3 '' \<noteq> []" by simp
  have v: "spec_normalize_ws '' e4  e5\<newline>\<newline>Nf3 '' = ''e4\<newline>e5\<newline>Nf3''" by code_simp
  from init_normalizes_whitespace [OF ne, THEN conjunct1]
  show ?thesis unfolding v by simp
qed


section \<open>Filtering by name\<close>

text \<open>
  Claim C6 asks for a match whatever the letter case of the criterion. The code lowers
  the players' names but not the criterion, so a criterion with a capital letter matches
  no game, here a game whose black player is Garry Kasparov; the same criterion in lower
  case matches, and the \<open>eco\<close> criterion is lowered on both sides.
\<close>

theorem game_match_name_capital_criterion:
  "game_match full_name ex_pairings ex_game ex_args_upper = Inr False
   \<and> str_in (lower ''Kasp'') (lower (full_name ex_B))
   \<and> game_match full_name ex_pairings ex_game ex_args_lower = Inr True"
  by code_simp

section \<open>Player rows\<close>

text \<open>
  Claim C5 asks for one Player row per name also when one game repeats a name in its
  white and black slots. \<open>__add_players\<close> looks both names up before it adds either, so
  on a database without that player the game creates two rows with the same name.
\<close>

theorem add_games_same_name_twice:
  "player_table (snd (add_games ex_parser_same empty_db)) =
     [\<lparr>pl_id = 1, pl_first_name = ''John'', pl_last_name = ''Smith''\<rparr>,
      \<lparr>pl_id = 2, pl_first_name = ''John'', pl_last_name = ''Smith''\<rparr>]
   \<and> fst (add_games ex_parser_same empty_db) = Inr ()"
  by code_simp

lemma add_games_shared_player:
  "player_table (snd (add_games ex_parser_shared empty_db)) =
     [\<lparr>pl_id = 1, pl_first_name = ''John'', pl_last_name = ''Smith''\<rparr>,
      \<lparr>pl_id = 2, pl_first_name = ''Jane'', pl_last_name = ''Doe''\<rparr>,
      \<lparr>pl_id = 3, pl_first_name = ''Jon'', pl_last_name = ''Smith''\<rparr>]
   \<and> pairing_table (snd (add_games ex_parser_shared empty_db)) =
     [\<lparr>game_id = 1, player_id = 2, color = ''black''\<rparr>,
      \<lparr>game_id = 1, player_id = 1, color = ''white''\<rparr>,
      \<lparr>game_id = 2, player_id = 3, color = ''black''\<rparr>,
      \<lparr>game_id = 2, player_id = 1, color = ''white''\<rparr>]"
  by code_simp

section \<open>Storage failures during ingestion\<close>
































end
